theory Spec2Isabelle
  imports Main "HOL-Library.Sublist" "HOL-Library.Multiset" "HOL-Library.Word"
begin

section \<open>Python strings\<close>

text \<open>
  The program works on Python \<open>str\<close> values. They are modelled as \<^typ>\<open>string\<close>; the
  model covers ASCII text (what a DNS label and an interface name hold): a character
  outside ASCII is left alone by \<open>lower\<close> and is not white space. The methods of \<open>str\<close>
  carry the prefix \<open>str_\<close>.
\<close>

definition ascii_uppercase :: string where
  "ascii_uppercase = ''ABCDEFGHIJKLMNOPQRSTUVWXYZ''"

definition ascii_lowercase :: string where
  "ascii_lowercase = ''abcdefghijklmnopqrstuvwxyz''"

definition digits :: string where
  "digits = ''0123456789''"

definition lower_char :: "char \<Rightarrow> char" where
  "lower_char c =
     (case map_of (zip ascii_uppercase ascii_lowercase) c of Some l \<Rightarrow> l | None \<Rightarrow> c)"

text \<open>\<open>s.lower()\<close>\<close>

definition str_lower :: "string \<Rightarrow> string" where
  "str_lower s = map lower_char s"

text \<open>
  White space as \<open>str.strip()\<close> sees it in ASCII: tab, line feed, vertical tab, form
  feed, carriage return, the four separators 0x1C to 0x1F, and the space.
\<close>

definition whitespace :: string where
  "whitespace = [CHR 0x09, CHR 0x0A, CHR 0x0B, CHR 0x0C, CHR 0x0D,
                 CHR 0x1C, CHR 0x1D, CHR 0x1E, CHR 0x1F, CHR '' '']"

definition is_space :: "char \<Rightarrow> bool" where
  "is_space c = (c \<in> set whitespace)"

text \<open>\<open>s.strip()\<close>\<close>

definition str_strip :: "string \<Rightarrow> string" where
  "str_strip s = rev (dropWhile is_space (rev (dropWhile is_space s)))"

text \<open>
  \<open>s.replace(old, new)\<close>: the occurrences of \<open>old\<close> are found from left to right and do
  not overlap; what is scanned is the input, never the output. With an empty \<open>old\<close>,
  Python puts \<open>new\<close> before every character and at the end.
\<close>

function str_replace :: "string \<Rightarrow> string \<Rightarrow> string \<Rightarrow> string" where
  "str_replace old new [] = (if old = [] then new else [])"
| "str_replace old new (c # cs) =
     (if old = [] then new @ c # str_replace old new cs
      else if prefix old (c # cs) then new @ str_replace old new (drop (length old) (c # cs))
      else c # str_replace old new cs)"
  by pat_completeness auto
termination
  by (relation "measure (\<lambda>(old, new, s). length s)") auto

text \<open>\<open>s.find(sub)\<close>: the lowest index where \<open>sub\<close> occurs in \<open>s\<close>, or \<open>-1\<close>.\<close>

fun str_find :: "string \<Rightarrow> string \<Rightarrow> int" where
  "str_find [] sub = (if sub = [] then 0 else - 1)"
| "str_find (c # cs) sub =
     (if prefix sub (c # cs) then 0
      else (let r = str_find cs sub in if r < 0 then - 1 else r + 1))"

text \<open>\<open>s.split(sep)\<close> for a separator of one character. The result is never empty.\<close>

fun str_split :: "string \<Rightarrow> char \<Rightarrow> string list" where
  "str_split [] sep = [[]]"
| "str_split (c # cs) sep =
     (if c = sep then [] # str_split cs sep
      else (case str_split cs sep of w # ws \<Rightarrow> (c # w) # ws | [] \<Rightarrow> [[c]]))"


section \<open>Errors\<close>

text \<open>
  The program raises \<open>Exception(message)\<close> itself; \<open>IndexError\<close> and \<open>KeyError\<close> come
  from indexing a list and a dictionary. A function that can raise returns
  \<open>error + 'a\<close>, with \<open>Inl\<close> for the exception.
\<close>

datatype error = IndexError | KeyError string | Exception string

text \<open>
  The specification's names for the three messages the program raises with:
  \<open>InvalidAddress\<close>, \<open>InvalidHostname\<close> and \<open>UnknownInterfaceType\<close> (the last carries
  the interface type that was not found). \<open>InvalidDomain\<close> is the remaining message.
\<close>

definition InvalidAddress :: error where
  "InvalidAddress = Exception ''Improper argument:  ipv4_address''"

definition InvalidHostname :: error where
  "InvalidHostname = Exception ''Improper argument:  hostname''"

definition InvalidDomain :: error where
  "InvalidDomain = Exception ''Improper argument:  domain''"

definition UnknownInterfaceType :: "string \<Rightarrow> error" where
  "UnknownInterfaceType interface_type =
     Exception (''Interface type '' @ [CHR 0x27] @ interface_type @ [CHR 0x27] @
                '' not found in 'INTERFACE_MAP' global settings.'')"


section \<open>The settings module\<close>

record settings =
  DEFAULT_DOMAIN :: string
  INTERFACE_MAP :: "(string \<times> string) list"
  MULTITHREAD :: bool
  PREFER_INTERFACE_FQDN_PTR :: bool
  SAVE_TO_CSV :: bool

text \<open>The values of \<open>settings.py\<close> as shipped.\<close>

definition settings_py :: settings where
  "settings_py =
     \<lparr>DEFAULT_DOMAIN = ''gatesint.com'',
      INTERFACE_MAP =
        [(''cellular'', ''ce''),
         (''fortygigabitethernet'', ''fo''),
         (''fortygige'', ''fo''),
         (''tengigabitethernet'', ''te''),
         (''gigabitethernet'', ''gi''),
         (''fastethernet'', ''fa''),
         (''ethernet'', ''et''),
         (''ge'', ''gi''),
         (''loopback'', ''lo''),
         (''loop'', ''lo''),
         (''multilink'', ''mu''),
         (''port-channel'', ''po''),
         (''portchannel'', ''po''),
         (''ether-channel'', ''po''),
         (''etherchannel'', ''po''),
         (''serial'', ''se''),
         (''tunnel'', ''tu''),
         (''vlan'', ''vl''),
         (''bvi'', ''bv'')],
      MULTITHREAD = True,
      PREFER_INTERFACE_FQDN_PTR = True,
      SAVE_TO_CSV = True\<rparr>"


section \<open>The identifier normalizer\<close>

subsection \<open>Device host names\<close>

text \<open>
  \<^verbatim>\<open>
  def _clean_device_hostname(hostname: str):
      hostname = hostname.lower()
      if hostname.find(".") >= 0:
          hostname = hostname.split(".")[0]
      hostname = hostname.replace("_","-")
      hostname = hostname.replace("--","-")
      hostname = hostname.replace("--","-")
      return hostname
  \<close>
  A name cannot start with an underscore here: the function is \<open>clean_device_hostname\<close>.
\<close>

definition clean_device_hostname :: "string \<Rightarrow> string" where
  "clean_device_hostname raw =
     (let h = str_lower raw;
          h = (if str_find h ''.'' \<ge> 0 then hd (str_split h CHR ''.'') else h);
          h = str_replace ''_'' ''-'' h;
          h = str_replace ''--'' ''-'' h;
          h = str_replace ''--'' ''-'' h
      in h)"

text \<open>
  The canonical form of a device host name, as the specification words it: lowercase,
  no dot, no underscore, no two dashes in a row.
\<close>

fun consecutive_dashes :: "string \<Rightarrow> bool" where
  "consecutive_dashes (a # b # s) =
     ((a = CHR ''-'' \<and> b = CHR ''-'') \<or> consecutive_dashes (b # s))"
| "consecutive_dashes _ = False"

definition canonical :: "string \<Rightarrow> bool" where
  "canonical s =
     (str_lower s = s \<and> CHR ''.'' \<notin> set s \<and> CHR ''_'' \<notin> set s \<and> \<not> consecutive_dashes s)"

subsection \<open>Interface names\<close>

definition is_az :: "char \<Rightarrow> bool" where
  "is_az c = (c \<in> set ascii_lowercase)"

definition is_digit :: "char \<Rightarrow> bool" where
  "is_digit c = (c \<in> set digits)"

text \<open>
  The first seven lines of \<open>_clean_interface_hostname\<close>: the interface name in lower
  case, its separators turned into dashes, double dashes replaced twice.
\<close>

definition interface_separators :: "string \<Rightarrow> string" where
  "interface_separators raw =
     (let i = str_lower raw;
          i = str_replace ''_'' ''-'' i;
          i = str_replace ''.'' ''-'' i;
          i = str_replace '':'' ''-'' i;
          i = str_replace ''/'' ''-'' i;
          i = str_replace ''--'' ''-'' i;
          i = str_replace ''--'' ''-'' i
      in i)"

text \<open>
  \<open>re.findall('^[a-z]+-[a-z]+|^[a-z]+', interface)\<close>. Both alternatives are anchored at
  the start of the string, so the list holds one match at most. The first alternative
  is tried first: the longest run of letters, a dash, and the longest run of letters
  after it, which must not be empty; a shorter first run cannot be followed by a dash.
  Otherwise the match is the leading run of letters, when there is one.
\<close>

definition findall_interface_type :: "string \<Rightarrow> string list" where
  "findall_interface_type s =
     (let word1 = takeWhile is_az s; rest = dropWhile is_az s in
      if word1 = [] then []
      else (case rest of
              [] \<Rightarrow> [word1]
            | c # rest' \<Rightarrow>
                (let word2 = takeWhile is_az rest' in
                 if c = CHR ''-'' \<and> word2 \<noteq> [] then [word1 @ ''-'' @ word2] else [word1])))"

text \<open>
  \<open>re.findall('[0-9].*', interface)\<close>. A match starts at a digit and runs to the end of
  the line (the dot matches everything but a line feed); the search goes on behind it.
\<close>

function findall_interface_number :: "string \<Rightarrow> string list" where
  "findall_interface_number s =
     (case dropWhile (\<lambda>c. \<not> is_digit c) s of
        [] \<Rightarrow> []
      | d # ds \<Rightarrow>
          (d # takeWhile (\<lambda>c. c \<noteq> CHR 0x0A) ds) #
          findall_interface_number (dropWhile (\<lambda>c. c \<noteq> CHR 0x0A) ds))"
  by pat_completeness auto
termination
proof (relation "measure length")
  fix s :: string and d ds
  assume "dropWhile (\<lambda>c. \<not> is_digit c) s = d # ds"
  then have "Suc (length ds) \<le> length s"
    using length_dropWhile_le [of "\<lambda>c. \<not> is_digit c" s] by simp
  moreover have "length (dropWhile (\<lambda>c. c \<noteq> CHR 0x0A) ds) \<le> length ds"
    by (rule length_dropWhile_le)
  ultimately show "(dropWhile (\<lambda>c. c \<noteq> CHR 0x0A) ds, s) \<in> measure length"
    by simp
qed simp

declare findall_interface_number.simps [simp del]

text \<open>
  \<^verbatim>\<open>
  def _clean_interface_hostname(hostname: str, interface: str):
      ...
      interface_type = re.findall('^[a-z]+-[a-z]+|^[a-z]+', interface)[0]
      try:
          interface_number = re.findall('[0-9].*', interface)[0]
      except IndexError:
          interface_number = ""
      if interface_type in s.INTERFACE_MAP.keys():
          interface_type = s.INTERFACE_MAP[interface_type]
      else:
          raise Exception(f"Interface type '{interface_type}' not found in ...")
      if len(interface_number) == 0:
          interface = hostname + "-" + interface_type
      else:
          interface = hostname + "-" + interface_type + "-" + interface_number
      return interface
  \<close>
  The first \<open>[0]\<close> is outside the \<open>try\<close>: on an empty list it raises \<open>IndexError\<close>.
\<close>

definition clean_interface_hostname :: "settings \<Rightarrow> string \<Rightarrow> string \<Rightarrow> error + string" where
  "clean_interface_hostname s device interface =
     (let i = interface_separators interface in
      case findall_interface_type i of
        [] \<Rightarrow> Inl IndexError
      | interface_type # _ \<Rightarrow>
          (let interface_number =
                 (case findall_interface_number i of [] \<Rightarrow> [] | n # _ \<Rightarrow> n)
           in case map_of (INTERFACE_MAP s) interface_type of
                None \<Rightarrow> Inl (UnknownInterfaceType interface_type)
              | Some short \<Rightarrow>
                  if length interface_number = 0 then Inr (device @ ''-'' @ short)
                  else Inr (device @ ''-'' @ short @ ''-'' @ interface_number)))"


section \<open>IPv4 addresses\<close>

text \<open>
  The standard library's \<open>ipaddress.IPv4Address\<close>: four octets. \<open>IPv4Address_of_str\<close> is
  its constructor on a string (\<open>None\<close> where it raises \<open>AddressValueError\<close>): four
  fields between dots, each of one to three ASCII digits, with no leading zero
  unless the field is \<open>0\<close>, and at most 255.
\<close>

datatype IPv4Address = IPv4Address "8 word" "8 word" "8 word" "8 word"

definition digit_value :: "char \<Rightarrow> nat" where
  "digit_value c =
     (case map_of (zip digits [0, 1, 2, 3, 4, 5, 6, 7, 8, 9]) c of Some v \<Rightarrow> v | None \<Rightarrow> 0)"

definition parse_octet :: "string \<Rightarrow> 8 word option" where
  "parse_octet octet_str =
     (if octet_str = [] then None
      else if \<not> list_all is_digit octet_str then None
      else if length octet_str > 3 then None
      else if octet_str \<noteq> ''0'' \<and> hd octet_str = CHR ''0'' then None
      else (let octet_int = foldl (\<lambda>n c. 10 * n + digit_value c) 0 octet_str in
            if octet_int > 255 then None else Some (of_nat octet_int)))"

definition IPv4Address_of_str :: "string \<Rightarrow> IPv4Address option" where
  "IPv4Address_of_str address =
     (case map parse_octet (str_split address CHR ''.'') of
        [Some a, Some b, Some c, Some d] \<Rightarrow> Some (IPv4Address a b c d)
      | _ \<Rightarrow> None)"

text \<open>\<open>str(n)\<close> for an octet.\<close>

definition str_octet :: "8 word \<Rightarrow> string" where
  "str_octet w =
     (let n = unat w in
      if n < 10 then [digits ! n]
      else if n < 100 then [digits ! (n div 10), digits ! (n mod 10)]
      else [digits ! (n div 100), digits ! (n div 10 mod 10), digits ! (n mod 10)])"

fun compressed :: "IPv4Address \<Rightarrow> string" where
  "compressed (IPv4Address a b c d) =
     str_octet a @ ''.'' @ str_octet b @ ''.'' @ str_octet c @ ''.'' @ str_octet d"

fun reverse_pointer :: "IPv4Address \<Rightarrow> string" where
  "reverse_pointer (IPv4Address a b c d) =
     str_octet d @ ''.'' @ str_octet c @ ''.'' @ str_octet b @ ''.'' @ str_octet a @
     ''.in-addr.arpa''"


section \<open>The resolution record\<close>

text \<open>
  What a caller can pass where Python checks the type of an argument at run time:
  \<open>None\<close>, a string, an \<open>IPv4Address\<close> object, or an object of another type.
\<close>

datatype py_value = PyNone | PyStr string | PyIPv4Address IPv4Address | PyObject

text \<open>
  The name service, as the two calls of the \<open>socket\<close> module the program makes.
  \<open>None\<close> is a call that raises; \<open>gethostbyaddr\<close> gives element 0 of the triple, the
  primary host name.
\<close>

record dns =
  gethostbyname :: "string \<Rightarrow> string option"
  gethostbyaddr :: "string \<Rightarrow> string option"

text \<open>The fields of an \<open>Address_FQDN\<close> object.\<close>

record Address_FQDN =
  ipv4_address :: IPv4Address
  ip_address :: string
  hostname :: string
  domain :: string
  full_name :: string
  forward_lookup_exists :: bool
  forward_lookup_needs_update :: bool
  forward_lookup_existing_value :: "string option"
  reverse_lookup_exists :: bool
  reverse_lookup_needs_update :: bool
  reverse_lookup_existing_value :: "string option"
  ptr_record :: string

text \<open>
  \<open>Address_FQDN.__init__\<close>, in the order of the source: the address, the host name, the
  domain, the two lookups. Lines 75 to 87:
  \<^verbatim>\<open>
  if isinstance(ipv4_address, str):
      try:
          ipv4_address = ipaddress.IPv4Address(ipv4_address)
      except:
          raise Exception("Improper argument:  ipv4_address")
  elif isinstance(ipv4_address, ipaddress.IPv4Address):
      ipv4_address = ipv4_address
  else:
      raise Exception("Improper argument:  ipv4_address")
  \<close>
\<close>

definition init_ipv4_address :: "py_value \<Rightarrow> error + IPv4Address" where
  "init_ipv4_address v =
     (case v of
        PyStr a \<Rightarrow> (case IPv4Address_of_str a of None \<Rightarrow> Inl InvalidAddress | Some ip \<Rightarrow> Inr ip)
      | PyIPv4Address ip \<Rightarrow> Inr ip
      | _ \<Rightarrow> Inl InvalidAddress)"

text \<open>
  Lines 90 to 93:
  \<^verbatim>\<open>
  if not isinstance(hostname, str) or len(hostname) == 0:
      raise Exception("Improper argument:  hostname")
  self.hostname = hostname.strip().lower()
  \<close>
\<close>

definition init_hostname :: "py_value \<Rightarrow> error + string" where
  "init_hostname v =
     (case v of
        PyStr h \<Rightarrow> if length h = 0 then Inl InvalidHostname else Inr (str_lower (str_strip h))
      | _ \<Rightarrow> Inl InvalidHostname)"

text \<open>
  Lines 96 to 105:
  \<^verbatim>\<open>
  if domain == None:
      domain = s.DEFAULT_DOMAIN
  elif not isinstance(domain, str):
      raise Exception("Improper argument:  domain")
  elif len(domain) == 0:
      domain = s.DEFAULT_DOMAIN
  domain = domain.strip().lower()
  \<close>
\<close>

definition init_domain :: "settings \<Rightarrow> py_value \<Rightarrow> error + string" where
  "init_domain s v =
     (case v of
        PyNone \<Rightarrow> Inr (str_lower (str_strip (DEFAULT_DOMAIN s)))
      | PyStr d \<Rightarrow>
          if length d = 0 then Inr (str_lower (str_strip (DEFAULT_DOMAIN s)))
          else Inr (str_lower (str_strip d))
      | _ \<Rightarrow> Inl InvalidDomain)"

text \<open>
  Lines 110 to 126, the forward lookup: the three fields \<open>forward_lookup_exists\<close>,
  \<open>forward_lookup_needs_update\<close> and \<open>forward_lookup_existing_value\<close>.
\<close>

definition forward_lookup :: "dns \<Rightarrow> string \<Rightarrow> string \<Rightarrow> bool \<times> bool \<times> string option" where
  "forward_lookup resolver name address =
     (case gethostbyname resolver name of
        Some address_info \<Rightarrow>
          if address_info = address then (True, False, Some address_info)
          else (True, True, Some address_info)
      | None \<Rightarrow> (False, True, None))"

text \<open>
  Lines 127 to 145, the reverse lookup. \<open>hostname_info.find(self.hostname + "-") == 0\<close>
  is the test of the second branch.
\<close>

definition reverse_lookup ::
  "settings \<Rightarrow> dns \<Rightarrow> string \<Rightarrow> string \<Rightarrow> string \<Rightarrow> bool \<times> bool \<times> string option" where
  "reverse_lookup s resolver address name host =
     (case gethostbyaddr resolver address of
        Some hostname_info \<Rightarrow>
          if hostname_info = name then (True, False, Some hostname_info)
          else if str_find hostname_info (host @ ''-'') = 0 \<and> PREFER_INTERFACE_FQDN_PTR s
            then (True, False, Some hostname_info)
          else (True, True, Some hostname_info)
      | None \<Rightarrow> (False, True, None))"

definition Address_FQDN_init ::
  "settings \<Rightarrow> dns \<Rightarrow> py_value \<Rightarrow> py_value \<Rightarrow> py_value \<Rightarrow> error + Address_FQDN" where
  "Address_FQDN_init s resolver address_arg hostname_arg domain_arg =
     (case init_ipv4_address address_arg of
        Inl e \<Rightarrow> Inl e
      | Inr ip \<Rightarrow>
     (case init_hostname hostname_arg of
        Inl e \<Rightarrow> Inl e
      | Inr h \<Rightarrow>
     (case init_domain s domain_arg of
        Inl e \<Rightarrow> Inl e
      | Inr d \<Rightarrow>
          (let a = str_strip (compressed ip);
               n = h @ ''.'' @ d;
               f = forward_lookup resolver n a;
               r = reverse_lookup s resolver a n h
           in Inr \<lparr>ipv4_address = ip,
                    ip_address = a,
                    hostname = h,
                    domain = d,
                    full_name = n,
                    forward_lookup_exists = fst f,
                    forward_lookup_needs_update = fst (snd f),
                    forward_lookup_existing_value = snd (snd f),
                    reverse_lookup_exists = fst r,
                    reverse_lookup_needs_update = fst (snd r),
                    reverse_lookup_existing_value = snd (snd r),
                    ptr_record = reverse_pointer ip\<rparr>))))"


section \<open>The batch coordinator\<close>

text \<open>
  A row of the input is a dictionary from column names to the strings of the CSV
  file. \<open>main\<close> is modelled from line 233 on, where \<open>address_table\<close> holds the rows;
  reading the file and the dialog that saves the output are left to the caller.
\<close>

type_synonym row = "string \<rightharpoonup> string"

text \<open>\<open>d[key]\<close> on a dictionary.\<close>

definition getitem :: "row \<Rightarrow> string \<Rightarrow> error + string" where
  "getitem d key = (case d key of None \<Rightarrow> Inl (KeyError key) | Some v \<Rightarrow> Inr v)"

text \<open>
  The body of the loop of lines 239 to 247:
  \<^verbatim>\<open>
  address['device_hostname'] = _clean_device_hostname(address['device_hostname'])
  if 'interface_name' in address.keys():
      if len(address['interface_name']) > 0:
          try:
              address['device_hostname'] = _clean_interface_hostname(
                  address['device_hostname'], address['interface_name'])
          except Exception as error:
              logging.warning(f"Object data build failed on:  "
                  f"{address['device_hostname']} - {address['ip_address']}\n{error}")
  \<close>
  The handler only logs: the row stays in the table, with the device host name that
  the first line gave it. The message reads \<open>address['ip_address']\<close>, which raises
  \<open>KeyError\<close> out of the handler when the row has no such column.
\<close>

definition clean_address :: "settings \<Rightarrow> row \<Rightarrow> error + row" where
  "clean_address s address =
     (case getitem address ''device_hostname'' of
        Inl e \<Rightarrow> Inl e
      | Inr raw \<Rightarrow>
          (let device = clean_device_hostname raw;
               address = address(''device_hostname'' \<mapsto> device)
           in case address ''interface_name'' of
                None \<Rightarrow> Inr address
              | Some interface \<Rightarrow>
                  if length interface > 0 then
                    (case clean_interface_hostname s device interface of
                       Inr name \<Rightarrow> Inr (address(''device_hostname'' \<mapsto> name))
                     | Inl error \<Rightarrow>
                         (case getitem address ''ip_address'' of
                            Inl e \<Rightarrow> Inl e
                          | Inr _ \<Rightarrow> Inr address))
                  else Inr address))"

fun clean_address_table :: "settings \<Rightarrow> row list \<Rightarrow> error + row list" where
  "clean_address_table s [] = Inr []"
| "clean_address_table s (address # address_table) =
     (case clean_address s address of
        Inl e \<Rightarrow> Inl e
      | Inr a \<Rightarrow>
          (case clean_address_table s address_table of
             Inl e \<Rightarrow> Inl e
           | Inr as \<Rightarrow> Inr (a # as)))"

text \<open>
  The body of the loop of lines 249 to 258: the keyword arguments of the constructor,
  \<open>{'ipv4_address': ..., 'hostname': ..., 'domain': ...}\<close>.
\<close>

record address_data =
  ipv4_address_arg :: py_value
  hostname_arg :: py_value
  domain_arg :: py_value

definition address_data_of :: "row \<Rightarrow> error + address_data" where
  "address_data_of address =
     (case getitem address ''ip_address'' of
        Inl e \<Rightarrow> Inl e
      | Inr ip \<Rightarrow>
          (case getitem address ''device_hostname'' of
             Inl e \<Rightarrow> Inl e
           | Inr h \<Rightarrow>
               Inr \<lparr>ipv4_address_arg = PyStr ip,
                    hostname_arg = PyStr h,
                    domain_arg = (case address ''domain'' of None \<Rightarrow> PyNone | Some d \<Rightarrow> PyStr d)\<rparr>))"

fun address_data_table :: "row list \<Rightarrow> error + address_data list" where
  "address_data_table [] = Inr []"
| "address_data_table (address # address_table) =
     (case address_data_of address of
        Inl e \<Rightarrow> Inl e
      | Inr a \<Rightarrow>
          (case address_data_table address_table of
             Inl e \<Rightarrow> Inl e
           | Inr as \<Rightarrow> Inr (a # as)))"

text \<open>Lines 239 to 258, the two loops: from the rows to the arguments of the constructor.\<close>

definition address_arguments :: "settings \<Rightarrow> row list \<Rightarrow> error + address_data list" where
  "address_arguments s address_table =
     (case clean_address_table s address_table of
        Inl e \<Rightarrow> Inl e
      | Inr cleaned \<Rightarrow> address_data_table cleaned)"

text \<open>
  \<^verbatim>\<open>
  def _build_address_fqdn_object(container: list, address_data: dict):
      container.append(Address_FQDN(**address_data))
  \<close>
\<close>

definition build_address_fqdn_object ::
  "settings \<Rightarrow> dns \<Rightarrow> Address_FQDN list \<Rightarrow> address_data \<Rightarrow> error + Address_FQDN list" where
  "build_address_fqdn_object s resolver container a =
     (case Address_FQDN_init s resolver (ipv4_address_arg a) (hostname_arg a) (domain_arg a) of
        Inl e \<Rightarrow> Inl e
      | Inr obj \<Rightarrow> Inr (container @ [obj]))"

text \<open>
  One task of the pool, run to its end: an exception of the task stays in its future,
  which nobody reads, and the container is as it was.
\<close>

definition task :: "settings \<Rightarrow> dns \<Rightarrow> Address_FQDN list \<Rightarrow> address_data \<Rightarrow> Address_FQDN list" where
  "task s resolver container a =
     (case build_address_fqdn_object s resolver container a of
        Inl e \<Rightarrow> container
      | Inr container' \<Rightarrow> container')"

text \<open>
  The thread pool of lines 261 to 266: every submitted task runs once, and the tasks
  finish in any order. \<open>thread_pool s resolver pending container result\<close>: with the
  tasks \<open>pending\<close> still to finish and the container as it is, the pool can end with
  the container \<open>result\<close>.
\<close>

inductive thread_pool ::
  "settings \<Rightarrow> dns \<Rightarrow> address_data list \<Rightarrow> Address_FQDN list \<Rightarrow> Address_FQDN list \<Rightarrow> bool"
  for s :: settings and resolver :: dns where
  finished: "thread_pool s resolver [] container container"
| task_done:
    "i < length pending \<Longrightarrow>
     thread_pool s resolver (take i pending @ drop (Suc i) pending)
       (task s resolver container (pending ! i)) result \<Longrightarrow>
     thread_pool s resolver pending container result"

text \<open>
  The loop of lines 268 to 272:
  \<^verbatim>\<open>
  for address in address_table:
      try:
          address_objects.append(Address_FQDN(**address))
      except Exception as error:
          logging.warning(...)
  \<close>
\<close>

fun build_sequential ::
  "settings \<Rightarrow> dns \<Rightarrow> address_data list \<Rightarrow> Address_FQDN list \<Rightarrow> Address_FQDN list" where
  "build_sequential s resolver [] address_objects = address_objects"
| "build_sequential s resolver (a # address_table) address_objects =
     build_sequential s resolver address_table
       (case Address_FQDN_init s resolver (ipv4_address_arg a) (hostname_arg a) (domain_arg a) of
          Inl error \<Rightarrow> address_objects
        | Inr obj \<Rightarrow> address_objects @ [obj])"

text \<open>The dictionary \<open>main\<close> returns: \<open>{'status': ..., 'data': ...}\<close>.\<close>

record main_result =
  status :: bool
  data :: "Address_FQDN list option"

text \<open>
  \<open>main s resolver address_table out\<close>: on the rows \<open>address_table\<close>, \<open>main\<close> can end
  with \<open>out\<close>, a returned dictionary or an exception that leaves \<open>main\<close>.
\<close>

inductive main :: "settings \<Rightarrow> dns \<Rightarrow> row list \<Rightarrow> error + main_result \<Rightarrow> bool"
  for s :: settings and resolver :: dns where
  no_data: "main s resolver [] (Inr \<lparr>status = False, data = None\<rparr>)"
| raises:
    "address_table \<noteq> [] \<Longrightarrow>
     address_arguments s address_table = Inl e \<Longrightarrow>
     main s resolver address_table (Inl e)"
| multithread:
    "address_table \<noteq> [] \<Longrightarrow>
     address_arguments s address_table = Inr arguments \<Longrightarrow>
     MULTITHREAD s \<Longrightarrow>
     thread_pool s resolver arguments [] address_objects \<Longrightarrow>
     main s resolver address_table (Inr \<lparr>status = True, data = Some address_objects\<rparr>)"
| sequential:
    "address_table \<noteq> [] \<Longrightarrow>
     address_arguments s address_table = Inr arguments \<Longrightarrow>
     \<not> MULTITHREAD s \<Longrightarrow>
     main s resolver address_table
       (Inr \<lparr>status = True, data = Some (build_sequential s resolver arguments [])\<rparr>)"

text \<open>
  The rows the coordinator is specified for: each has the columns \<open>ip_address\<close> and
  \<open>device_hostname\<close>.
\<close>

definition mandatory_fields :: "row \<Rightarrow> bool" where
  "mandatory_fields address =
     (address ''ip_address'' \<noteq> None \<and> address ''device_hostname'' \<noteq> None)"

text \<open>A name service that answers nothing, and one row with an interface type that
  \<open>INTERFACE_MAP\<close> does not hold.\<close>

definition no_dns :: dns where
  "no_dns = \<lparr>gethostbyname = (\<lambda>name. None), gethostbyaddr = (\<lambda>address. None)\<rparr>"

definition wireless_row :: row where
  "wireless_row =
     [''ip_address'' \<mapsto> ''10.0.0.1'', ''device_hostname'' \<mapsto> ''sw1'',
      ''interface_name'' \<mapsto> ''Wireless0'']"

text \<open>
  The object built for that row, and for \<open>sw1\<close> at \<open>10.0.0.1\<close> in general, when the name
  service answers nothing.
\<close>

definition sw1_unresolved :: Address_FQDN where
  "sw1_unresolved =
     \<lparr>ipv4_address = IPv4Address 10 0 0 1,
      ip_address = ''10.0.0.1'',
      hostname = ''sw1'',
      domain = ''gatesint.com'',
      full_name = ''sw1.gatesint.com'',
      forward_lookup_exists = False,
      forward_lookup_needs_update = True,
      forward_lookup_existing_value = None,
      reverse_lookup_exists = False,
      reverse_lookup_needs_update = True,
      reverse_lookup_existing_value = None,
      ptr_record = ''1.0.0.10.in-addr.arpa''\<rparr>"

text \<open>
  A row with both columns, and a blank line of the CSV file: \<open>dict(zip(columns, []))\<close>
  is the dictionary without keys.
\<close>

definition sw1_row :: row where
  "sw1_row = [''ip_address'' \<mapsto> ''10.0.0.1'', ''device_hostname'' \<mapsto> ''sw1'']"

definition blank_row :: row where
  "blank_row = Map.empty"

text \<open>A row whose address is not an IPv4 address.\<close>

definition bad_address_row :: row where
  "bad_address_row = [''ip_address'' \<mapsto> ''10.0.0'', ''device_hostname'' \<mapsto> ''sw1'']"

text \<open>
  A name service for the examples: \<open>sw1.gatesint.com\<close> resolves to another address, and
  the address \<open>10.0.0.1\<close> resolves to the name of an interface of \<open>sw1\<close>. \<open>sw1_record\<close> is
  the object built for \<open>sw1\<close> at \<open>10.0.0.1\<close> with it.
\<close>

definition example_dns :: dns where
  "example_dns =
     \<lparr>gethostbyname = (\<lambda>name. if name = ''sw1.gatesint.com'' then Some ''10.0.0.2'' else None),
      gethostbyaddr =
        (\<lambda>address. if address = ''10.0.0.1'' then Some ''sw1-gi-0-1.gatesint.com'' else None)\<rparr>"

definition sw1_record :: Address_FQDN where
  "sw1_record =
     \<lparr>ipv4_address = IPv4Address 10 0 0 1,
      ip_address = ''10.0.0.1'',
      hostname = ''sw1'',
      domain = ''gatesint.com'',
      full_name = ''sw1.gatesint.com'',
      forward_lookup_exists = True,
      forward_lookup_needs_update = True,
      forward_lookup_existing_value = Some ''10.0.0.2'',
      reverse_lookup_exists = True,
      reverse_lookup_needs_update = False,
      reverse_lookup_existing_value = Some ''sw1-gi-0-1.gatesint.com'',
      ptr_record = ''1.0.0.10.in-addr.arpa''\<rparr>"


section \<open>Facts about the string operations\<close>

lemmas char_tables =
  lower_char_def ascii_uppercase_def ascii_lowercase_def digits_def
  is_az_def is_digit_def is_space_def whitespace_def digit_value_def

lemma str_split_not_Nil: "str_split t sep \<noteq> []"
  by (induction t) (auto split: list.splits)

lemma hd_str_split: "hd (str_split t sep) = takeWhile (\<lambda>c. c \<noteq> sep) t"
  using str_split_not_Nil [of _ sep] by (induction t) (auto split: list.splits)

lemma str_find_char_iff: "str_find t [c] \<ge> 0 \<longleftrightarrow> c \<in> set t"
  by (induction t) (auto simp: Let_def)

lemma str_find_zero_iff: "str_find t sub = 0 \<longleftrightarrow> prefix sub t"
proof (cases t)
  case Nil
  then show ?thesis by simp
next
  case (Cons c cs)
  have "str_find cs sub \<ge> - 1" for cs
    by (induction cs) (auto simp: Let_def)
  then show ?thesis
    using Cons by (auto simp: Let_def)
qed

lemma str_replace_char_absent: "a \<notin> set t \<Longrightarrow> str_replace [a] new t = t"
  by (induction t) auto

lemma str_replace_dashes_absent: "\<not> consecutive_dashes t \<Longrightarrow> str_replace ''--'' ''-'' t = t"
proof (induction t rule: consecutive_dashes.induct)
  case (1 a b t)
  then show ?case by auto
qed simp_all

lemma clean_device_hostname_canonical:
  assumes "canonical t"
  shows "clean_device_hostname t = t"
  using assms
  by (simp add: canonical_def clean_device_hostname_def str_find_char_iff
      str_replace_char_absent str_replace_dashes_absent)


section \<open>Facts about the resolution record\<close>

lemmas init_defs =
  Address_FQDN_init_def init_ipv4_address_def init_hostname_def init_domain_def
  forward_lookup_def reverse_lookup_def

lemma IPv4Address_of_str_10_0_0_1:
  "IPv4Address_of_str ''10.0.0.1'' = Some (IPv4Address 10 0 0 1)"
  by (simp add: IPv4Address_of_str_def parse_octet_def char_tables)

lemma Address_FQDN_init_fields:
  assumes "Address_FQDN_init s resolver a h d = Inr r"
  shows "forward_lookup resolver (full_name r) (ip_address r) =
           (forward_lookup_exists r, forward_lookup_needs_update r,
            forward_lookup_existing_value r)"
    and "reverse_lookup s resolver (ip_address r) (full_name r) (hostname r) =
           (reverse_lookup_exists r, reverse_lookup_needs_update r,
            reverse_lookup_existing_value r)"
    and "full_name r = hostname r @ ''.'' @ domain r"
  using assms
  by (auto simp: Address_FQDN_init_def Let_def split: sum.splits)

lemma Address_FQDN_init_sw1:
  "Address_FQDN_init settings_py example_dns (PyStr ''10.0.0.1'') (PyStr ''sw1'') PyNone =
   Inr sw1_record"
  by (simp add: init_defs IPv4Address_of_str_10_0_0_1 example_dns_def settings_py_def
      sw1_record_def str_octet_def str_strip_def str_lower_def char_tables)


section \<open>Claims about the identifier normalizer\<close>

text \<open>
  Claim C3. A run of one to five consecutive underscores or dashes in the input of
  \<open>clean_device_hostname\<close> should come out as exactly one dash. Between \<open>sw\<close> and \<open>1\<close>,
  the two passes of \<open>replace("--", "-")\<close> do it for runs of one to four, and not for a
  run of five, which comes out as two dashes: the first pass leaves three of the five,
  the second leaves two.
\<close>

theorem C3_run_of_five_leaves_two_dashes:
  "clean_device_hostname ''sw-1'' = ''sw-1'' \<and>
   clean_device_hostname ''sw--1'' = ''sw-1'' \<and>
   clean_device_hostname ''sw---1'' = ''sw-1'' \<and>
   clean_device_hostname ''sw----1'' = ''sw-1'' \<and>
   clean_device_hostname ''sw-----1'' = ''sw--1'' \<and>
   clean_device_hostname ''sw_____1'' = ''sw--1''"
  by (simp add: clean_device_hostname_def str_lower_def char_tables)

text \<open>
  Claim C6. With the interface map as shipped, which takes \<open>gigabitethernet\<close> to \<open>gi\<close>
  and \<open>port-channel\<close> to \<open>po\<close>, the interface \<open>GigabitEthernet0/1\<close> of \<open>sw1\<close> is named
  \<open>sw1-gi-0-1\<close> and its interface \<open>Port-channel12\<close> is named \<open>sw1-po-12\<close>.
\<close>

theorem C6_interface_hostname_examples:
  "map_of (INTERFACE_MAP settings_py) ''gigabitethernet'' = Some ''gi'' \<and>
   map_of (INTERFACE_MAP settings_py) ''port-channel'' = Some ''po'' \<and>
   clean_interface_hostname settings_py ''sw1'' ''GigabitEthernet0/1'' = Inr ''sw1-gi-0-1'' \<and>
   clean_interface_hostname settings_py ''sw1'' ''Port-channel12'' = Inr ''sw1-po-12''"
  by (simp add: clean_interface_hostname_def interface_separators_def
      findall_interface_type_def findall_interface_number.simps settings_py_def
      str_lower_def char_tables)

text \<open>
  Claim C8. \<open>clean_device_hostname\<close> is idempotent on canonical inputs: for an input that
  is lowercase and has no dot, no underscore and no two dashes in a row, applying the
  function twice gives what applying it once gives.
\<close>

theorem C8_idempotent_on_canonical:
  assumes "canonical t"
  shows "clean_device_hostname (clean_device_hostname t) = clean_device_hostname t"
  using assms by (simp add: clean_device_hostname_canonical)

theorem C8_idempotent_on_canonical_witness:
  "canonical ''core-sw1'' \<and>
   clean_device_hostname (clean_device_hostname ''core-sw1'') =
     clean_device_hostname ''core-sw1'' \<and>
   clean_device_hostname ''core-sw1'' = ''core-sw1''"
proof -
  have c: "canonical ''core-sw1''"
    by (simp add: canonical_def str_lower_def char_tables)
  have "clean_device_hostname ''core-sw1'' = ''core-sw1''"
    by (simp add: clean_device_hostname_def str_lower_def char_tables)
  with c C8_idempotent_on_canonical [OF c] show ?thesis by simp
qed


text \<open>
  Claim C10. For every device host name and every interface name whose form in lower
  case with the separators normalized does not begin with a letter \<open>a\<close> to \<open>z\<close> (it is
  empty, or begins with a digit or a dash, as \<open>0/1\<close>, \<open>-eth0\<close> and the empty string do),
  \<open>_clean_interface_hostname\<close> raises \<open>IndexError\<close>, from element 0 of an empty list of
  matches, and not the error for an unknown interface type.
\<close>

theorem C10_index_error_without_leading_letter:
  assumes "interface_separators interface = [] \<or>
           \<not> is_az (hd (interface_separators interface))"
  shows "clean_interface_hostname s device interface = Inl IndexError \<and>
         clean_interface_hostname s device interface \<noteq> Inl (UnknownInterfaceType t)"
proof -
  from assms have "takeWhile is_az (interface_separators interface) = []"
    by (cases "interface_separators interface") auto
  then show ?thesis
    by (simp add: clean_interface_hostname_def findall_interface_type_def Let_def
        UnknownInterfaceType_def)
qed

theorem C10_index_error_without_leading_letter_witness:
  "interface_separators ''0/1'' = ''0-1'' \<and>
   interface_separators ''-eth0'' = ''-eth0'' \<and>
   interface_separators [] = [] \<and>
   clean_interface_hostname settings_py ''sw1'' ''0/1'' = Inl IndexError \<and>
   clean_interface_hostname settings_py ''sw1'' ''-eth0'' = Inl IndexError \<and>
   clean_interface_hostname settings_py ''sw1'' [] = Inl IndexError"
proof -
  have a: "interface_separators ''0/1'' = ''0-1''"
    and b: "interface_separators ''-eth0'' = ''-eth0''"
    and c: "interface_separators [] = []"
    by (simp_all add: interface_separators_def str_lower_def char_tables)
  have "clean_interface_hostname settings_py ''sw1'' ''0/1'' = Inl IndexError"
    using C10_index_error_without_leading_letter [of "''0/1''" settings_py "''sw1''"]
    by (simp add: a char_tables)
  moreover have "clean_interface_hostname settings_py ''sw1'' ''-eth0'' = Inl IndexError"
    using C10_index_error_without_leading_letter [of "''-eth0''" settings_py "''sw1''"]
    by (simp add: b char_tables)
  moreover have "clean_interface_hostname settings_py ''sw1'' [] = Inl IndexError"
    using C10_index_error_without_leading_letter [of "[]" settings_py "''sw1''"]
    by (simp add: c)
  ultimately show ?thesis
    using a b c by simp
qed


section \<open>Claims about the resolution record\<close>

text \<open>
  Claim C4. For every object that \<open>Address_FQDN\<close> constructs, the reverse lookup is
  classified so: a lookup that fails gives \<open>NotFound\<close> (the record does not exist, needs
  an update, and there is no existing value); a returned name equal to \<open>full_name\<close>
  gives \<open>MatchesExpected\<close> (exists, needs no update); a returned name that begins with
  the host name and a dash, while \<open>PREFER_INTERFACE_FQDN_PTR\<close> is on, gives
  \<open>MatchesPreferredAlternate\<close> (exists, needs no update); any other returned name
  gives \<open>ExistsButDiffers\<close> (exists, needs an update). Whenever a name is returned it is
  the existing value.
\<close>

theorem C4_reverse_lookup_classification:
  assumes "Address_FQDN_init s resolver a h d = Inr r"
  shows "case gethostbyaddr resolver (ip_address r) of
           None \<Rightarrow>
             \<not> reverse_lookup_exists r \<and> reverse_lookup_needs_update r \<and>
             reverse_lookup_existing_value r = None
         | Some name \<Rightarrow>
             reverse_lookup_exists r \<and> reverse_lookup_existing_value r = Some name \<and>
             (if name = full_name r then \<not> reverse_lookup_needs_update r
              else if prefix (hostname r @ ''-'') name \<and> PREFER_INTERFACE_FQDN_PTR s
                then \<not> reverse_lookup_needs_update r
              else reverse_lookup_needs_update r)"
  using Address_FQDN_init_fields(2) [OF assms]
  by (auto simp: reverse_lookup_def str_find_zero_iff split: option.splits if_splits)

theorem C4_reverse_lookup_classification_witness:
  "Address_FQDN_init settings_py example_dns (PyStr ''10.0.0.1'') (PyStr ''sw1'') PyNone =
     Inr sw1_record \<and>
   gethostbyaddr example_dns (ip_address sw1_record) = Some ''sw1-gi-0-1.gatesint.com'' \<and>
   ''sw1-gi-0-1.gatesint.com'' \<noteq> full_name sw1_record \<and>
   prefix (hostname sw1_record @ ''-'') ''sw1-gi-0-1.gatesint.com'' \<and>
   PREFER_INTERFACE_FQDN_PTR settings_py \<and>
   reverse_lookup_exists sw1_record \<and>
   \<not> reverse_lookup_needs_update sw1_record \<and>
   reverse_lookup_existing_value sw1_record = Some ''sw1-gi-0-1.gatesint.com''"
proof -
  have a: "gethostbyaddr example_dns (ip_address sw1_record) = Some ''sw1-gi-0-1.gatesint.com''"
    by (simp add: example_dns_def sw1_record_def)
  have b: "''sw1-gi-0-1.gatesint.com'' \<noteq> full_name sw1_record"
    by (simp add: sw1_record_def)
  have c: "prefix (hostname sw1_record @ ''-'') ''sw1-gi-0-1.gatesint.com''"
    by (simp add: sw1_record_def)
  have d: "PREFER_INTERFACE_FQDN_PTR settings_py"
    by (simp add: settings_py_def)
  from C4_reverse_lookup_classification [OF Address_FQDN_init_sw1]
  have "reverse_lookup_exists sw1_record \<and>
        reverse_lookup_existing_value sw1_record = Some ''sw1-gi-0-1.gatesint.com'' \<and>
        \<not> reverse_lookup_needs_update sw1_record"
    using b c d by (simp add: a)
  with Address_FQDN_init_sw1 a b c d show ?thesis by simp
qed

text \<open>
  Claim C5. For every object that \<open>Address_FQDN\<close> constructs, the forward lookup is
  classified so: a lookup that fails gives \<open>NotFound\<close> (the record does not exist, needs
  an update, and there is no existing value); a returned address equal to \<open>ip_address\<close>
  gives \<open>MatchesExpected\<close> (exists, needs no update); any other returned address gives
  \<open>ExistsButDiffers\<close> (exists, needs an update), and the returned address is the
  existing value. The name service has no say in whether the object is constructed:
  with the same arguments it is constructed whatever the lookups answer.
\<close>

theorem C5_forward_lookup_classification:
  assumes "Address_FQDN_init s resolver a h d = Inr r"
  shows "(case gethostbyname resolver (full_name r) of
            None \<Rightarrow>
              \<not> forward_lookup_exists r \<and> forward_lookup_needs_update r \<and>
              forward_lookup_existing_value r = None
          | Some address \<Rightarrow>
              forward_lookup_exists r \<and> forward_lookup_existing_value r = Some address \<and>
              (if address = ip_address r then \<not> forward_lookup_needs_update r
               else forward_lookup_needs_update r)) \<and>
         (\<forall>resolver'. \<exists>r'. Address_FQDN_init s resolver' a h d = Inr r')"
proof
  show "case gethostbyname resolver (full_name r) of
            None \<Rightarrow>
              \<not> forward_lookup_exists r \<and> forward_lookup_needs_update r \<and>
              forward_lookup_existing_value r = None
          | Some address \<Rightarrow>
              forward_lookup_exists r \<and> forward_lookup_existing_value r = Some address \<and>
              (if address = ip_address r then \<not> forward_lookup_needs_update r
               else forward_lookup_needs_update r)"
    using Address_FQDN_init_fields(1) [OF assms]
    by (auto simp: forward_lookup_def split: option.splits if_splits)
  show "\<forall>resolver'. \<exists>r'. Address_FQDN_init s resolver' a h d = Inr r'"
    using assms by (auto simp: Address_FQDN_init_def Let_def split: sum.splits)
qed

theorem C5_forward_lookup_classification_witness:
  "Address_FQDN_init settings_py example_dns (PyStr ''10.0.0.1'') (PyStr ''sw1'') PyNone =
     Inr sw1_record \<and>
   gethostbyname example_dns (full_name sw1_record) = Some ''10.0.0.2'' \<and>
   ''10.0.0.2'' \<noteq> ip_address sw1_record \<and>
   forward_lookup_exists sw1_record \<and>
   forward_lookup_needs_update sw1_record \<and>
   forward_lookup_existing_value sw1_record = Some ''10.0.0.2'' \<and>
   (\<exists>r'. Address_FQDN_init settings_py no_dns (PyStr ''10.0.0.1'') (PyStr ''sw1'') PyNone =
      Inr r')"
proof -
  have a: "gethostbyname example_dns (full_name sw1_record) = Some ''10.0.0.2''"
    by (simp add: example_dns_def sw1_record_def)
  have b: "''10.0.0.2'' \<noteq> ip_address sw1_record"
    by (simp add: sw1_record_def)
  note c = C5_forward_lookup_classification [OF Address_FQDN_init_sw1]
  from c have "forward_lookup_exists sw1_record \<and>
        forward_lookup_existing_value sw1_record = Some ''10.0.0.2'' \<and>
        forward_lookup_needs_update sw1_record"
    using b by (simp add: a)
  moreover from c
  have "\<exists>r'. Address_FQDN_init settings_py no_dns (PyStr ''10.0.0.1'') (PyStr ''sw1'') PyNone =
      Inr r'"
    by blast
  ultimately show ?thesis
    using Address_FQDN_init_sw1 a b by simp
qed

text \<open>
  Claim C2. The construction should fail with \<open>InvalidHostname\<close> whenever the host name
  is empty once its white space is trimmed, so that no constructed object has an empty
  \<open>hostname\<close>. The empty string is refused. A host name of one space is not: its length
  is tested before it is trimmed, and the object is built with the empty \<open>hostname\<close> and
  the name \<open>.gatesint.com\<close>.
\<close>

theorem C2_blank_hostname_is_accepted:
  "Address_FQDN_init settings_py no_dns (PyStr ''10.0.0.1'') (PyStr []) PyNone =
     Inl InvalidHostname \<and>
   str_strip '' '' = [] \<and>
   Address_FQDN_init settings_py no_dns (PyStr ''10.0.0.1'') (PyStr '' '') PyNone =
     Inr \<lparr>ipv4_address = IPv4Address 10 0 0 1,
          ip_address = ''10.0.0.1'',
          hostname = [],
          domain = ''gatesint.com'',
          full_name = ''.gatesint.com'',
          forward_lookup_exists = False,
          forward_lookup_needs_update = True,
          forward_lookup_existing_value = None,
          reverse_lookup_exists = False,
          reverse_lookup_needs_update = True,
          reverse_lookup_existing_value = None,
          ptr_record = ''1.0.0.10.in-addr.arpa''\<rparr>"
  by (simp add: init_defs IPv4Address_of_str_10_0_0_1 no_dns_def settings_py_def
      str_octet_def str_strip_def str_lower_def char_tables)

text \<open>
  Claim C7. The domain should never be empty when \<open>full_name\<close> is formed: an absent
  domain and the empty string fall back to the default domain, and any other domain
  is trimmed and put in lower case. Both fall back as claimed. A domain of one space
  is neither: its length is tested before it is trimmed, and the object is built with
  the empty \<open>domain\<close> and the name \<open>sw1.\<close>.
\<close>

theorem C7_blank_domain_is_accepted:
  "init_domain settings_py PyNone = Inr ''gatesint.com'' \<and>
   init_domain settings_py (PyStr []) = Inr ''gatesint.com'' \<and>
   init_domain settings_py (PyStr '' Example.COM '') = Inr ''example.com'' \<and>
   Address_FQDN_init settings_py no_dns (PyStr ''10.0.0.1'') (PyStr ''sw1'') (PyStr '' '') =
     Inr \<lparr>ipv4_address = IPv4Address 10 0 0 1,
          ip_address = ''10.0.0.1'',
          hostname = ''sw1'',
          domain = [],
          full_name = ''sw1.'',
          forward_lookup_exists = False,
          forward_lookup_needs_update = True,
          forward_lookup_existing_value = None,
          reverse_lookup_exists = False,
          reverse_lookup_needs_update = True,
          reverse_lookup_existing_value = None,
          ptr_record = ''1.0.0.10.in-addr.arpa''\<rparr>"
  by (simp add: init_defs IPv4Address_of_str_10_0_0_1 no_dns_def settings_py_def
      str_octet_def str_strip_def str_lower_def char_tables)


section \<open>Facts about the batch coordinator\<close>

lemma clean_address_mandatory_fields:
  assumes "mandatory_fields address"
  shows "\<exists>a. clean_address s address = Inr a \<and> mandatory_fields a"
  using assms
  by (auto simp: mandatory_fields_def clean_address_def getitem_def Let_def
      split: option.splits sum.splits)

lemma clean_address_table_mandatory_fields:
  assumes "list_all mandatory_fields address_table"
  shows "\<exists>cleaned. clean_address_table s address_table = Inr cleaned \<and>
           list_all mandatory_fields cleaned"
  using assms
proof (induction address_table)
  case Nil
  then show ?case by simp
next
  case (Cons address address_table)
  then obtain a cleaned where
    "clean_address s address = Inr a" "mandatory_fields a"
    "clean_address_table s address_table = Inr cleaned" "list_all mandatory_fields cleaned"
    using clean_address_mandatory_fields [of address s] by auto
  then show ?case by simp
qed

lemma address_data_table_mandatory_fields:
  assumes "list_all mandatory_fields cleaned"
  shows "\<exists>arguments. address_data_table cleaned = Inr arguments"
  using assms
proof (induction cleaned)
  case Nil
  then show ?case by simp
next
  case (Cons address cleaned)
  then obtain arguments where "address_data_table cleaned = Inr arguments"
    by auto
  moreover from Cons.prems have "\<exists>a. address_data_of address = Inr a"
    by (auto simp: mandatory_fields_def address_data_of_def getitem_def)
  ultimately show ?case by auto
qed

lemma address_arguments_mandatory_fields:
  assumes "list_all mandatory_fields address_table"
  shows "\<exists>arguments. address_arguments s address_table = Inr arguments"
proof -
  from clean_address_table_mandatory_fields [OF assms, of s] obtain cleaned where
    "clean_address_table s address_table = Inr cleaned" "list_all mandatory_fields cleaned"
    by blast
  with address_data_table_mandatory_fields [of cleaned] show ?thesis
    by (auto simp: address_arguments_def)
qed

text \<open>A row without the column \<open>device_hostname\<close> ends \<open>main\<close> with a \<open>KeyError\<close>.\<close>

lemma main_row_without_columns:
  "main s resolver [Map.empty] (Inl (KeyError ''device_hostname''))"
  by (rule main.raises) (simp_all add: address_arguments_def clean_address_def getitem_def)

text \<open>The sequential loop, one task after the other.\<close>

lemma task_append: "task s resolver container a = container @ task s resolver [] a"
  by (simp add: task_def build_address_fqdn_object_def split: sum.splits)

lemma build_sequential_step:
  "build_sequential s resolver (a # pending) container =
   build_sequential s resolver pending (task s resolver container a)"
  by (simp add: task_def build_address_fqdn_object_def split: sum.splits)

lemma build_sequential_concat:
  "build_sequential s resolver pending container =
   container @ concat (map (task s resolver []) pending)"
proof (induction pending arbitrary: container)
  case Nil
  show ?case by simp
next
  case (Cons a pending)
  show ?case
    unfolding build_sequential_step Cons
    by (simp add: task_append [of s resolver container])
qed

text \<open>The pool can finish its tasks in the order of submission.\<close>

lemma thread_pool_in_order:
  "thread_pool s resolver pending container (build_sequential s resolver pending container)"
proof (induction pending arbitrary: container)
  case Nil
  show ?case by (simp add: thread_pool.finished)
next
  case (Cons a pending)
  have "thread_pool s resolver (take 0 (a # pending) @ drop (Suc 0) (a # pending))
          (task s resolver container ((a # pending) ! 0))
          (build_sequential s resolver (a # pending) container)"
    using Cons [of "task s resolver container a"]
    by (simp only: build_sequential_step take_0 drop_Suc_Cons drop_0 append_Nil nth_Cons_0)
  then show ?case
    by (rule thread_pool.task_done [rotated]) simp
qed

text \<open>
  In whatever order the tasks finish, the container ends with the objects of the
  sequential loop, each as often.
\<close>

lemma thread_pool_mset:
  assumes "thread_pool s resolver pending container result"
  shows "mset result = mset (build_sequential s resolver pending container)"
  using assms
proof (induction rule: thread_pool.induct)
  case (finished container)
  show ?case by simp
next
  case (task_done i pending container result)
  let ?f = "task s resolver []"
  have "pending = take i pending @ pending ! i # drop (Suc i) pending"
    using task_done.hyps(1) by (rule id_take_nth_drop)
  then have "concat (map ?f pending) =
      concat (map ?f (take i pending)) @ ?f (pending ! i) @ concat (map ?f (drop (Suc i) pending))"
    by (metis concat.simps(2) concat_append list.simps(9) map_append)
  then have "mset (concat (map ?f pending)) =
      mset (?f (pending ! i)) +
      mset (concat (map ?f (take i pending @ drop (Suc i) pending)))"
    by simp
  with task_done.IH show ?case
    by (simp add: build_sequential_concat task_append [of s resolver container])
qed

lemma main_total:
  assumes "list_all mandatory_fields address_table"
  shows "\<exists>out. main s resolver address_table out"
proof (cases "address_table = []")
  case True
  then show ?thesis by (auto intro: main.no_data)
next
  case False
  obtain arguments where a: "address_arguments s address_table = Inr arguments"
    using address_arguments_mandatory_fields [OF assms] by blast
  show ?thesis
  proof (cases "MULTITHREAD s")
    case True
    with False a thread_pool_in_order [of s resolver arguments "[]"] show ?thesis
      by (blast intro: main.multithread)
  next
    case False
    with \<open>address_table \<noteq> []\<close> a show ?thesis
      by (blast intro: main.sequential)
  qed
qed

text \<open>The examples, evaluated.\<close>

lemma Address_FQDN_init_sw1_unresolved:
  "Address_FQDN_init settings_py no_dns (PyStr ''10.0.0.1'') (PyStr ''sw1'') PyNone =
   Inr sw1_unresolved"
  by (simp add: init_defs IPv4Address_of_str_10_0_0_1 no_dns_def settings_py_def
      sw1_unresolved_def str_octet_def str_strip_def str_lower_def char_tables)

lemma Address_FQDN_init_bad_address:
  "Address_FQDN_init s resolver (PyStr ''10.0.0'') h d = Inl InvalidAddress"
  by (simp add: Address_FQDN_init_def init_ipv4_address_def IPv4Address_of_str_def
      parse_octet_def char_tables)

lemma clean_interface_hostname_Wireless0:
  "clean_interface_hostname settings_py ''sw1'' ''Wireless0'' =
   Inl (UnknownInterfaceType ''wireless'')"
  by (simp add: clean_interface_hostname_def interface_separators_def
      findall_interface_type_def findall_interface_number.simps settings_py_def
      str_lower_def char_tables)

lemma clean_device_hostname_sw1: "clean_device_hostname ''sw1'' = ''sw1''"
  by (simp add: clean_device_hostname_def str_lower_def char_tables)

lemma address_arguments_wireless_row:
  "address_arguments settings_py [wireless_row] =
   Inr [\<lparr>ipv4_address_arg = PyStr ''10.0.0.1'', hostname_arg = PyStr ''sw1'',
         domain_arg = PyNone\<rparr>]"
  by (simp add: address_arguments_def clean_address_def address_data_of_def getitem_def
      wireless_row_def clean_device_hostname_sw1 clean_interface_hostname_Wireless0)

lemma address_arguments_bad_address_row:
  "address_arguments s [bad_address_row] =
   Inr [\<lparr>ipv4_address_arg = PyStr ''10.0.0'', hostname_arg = PyStr ''sw1'',
         domain_arg = PyNone\<rparr>]"
  by (simp add: address_arguments_def clean_address_def address_data_of_def getitem_def
      bad_address_row_def clean_device_hostname_sw1)


section \<open>Claims about the batch coordinator\<close>

text \<open>
  Claim C1. A row whose interface type is not a key of \<open>INTERFACE_MAP\<close> should raise
  the error for an unknown interface type and be left out of the records that \<open>main\<close>
  returns. For the row of \<open>sw1\<close> with the interface \<open>Wireless0\<close> the error is raised, and
  the only thing \<open>main\<close> can return holds a record for the row all the same: the one of
  the device \<open>sw1\<close> itself at the address of the interface.
\<close>

theorem C1_unknown_interface_row_is_kept:
  "clean_interface_hostname settings_py ''sw1'' ''Wireless0'' =
     Inl (UnknownInterfaceType ''wireless'') \<and>
   {out. main settings_py no_dns [wireless_row] out} =
     {Inr \<lparr>status = True, data = Some [sw1_unresolved]\<rparr>}"
proof -
  let ?arguments =
    "[\<lparr>ipv4_address_arg = PyStr ''10.0.0.1'', hostname_arg = PyStr ''sw1'',
       domain_arg = PyNone\<rparr>]"
  have m: "MULTITHREAD settings_py"
    by (simp add: settings_py_def)
  have b: "build_sequential settings_py no_dns ?arguments [] = [sw1_unresolved]"
    by (simp add: Address_FQDN_init_sw1_unresolved)
  have ex: "main settings_py no_dns [wireless_row]
              (Inr \<lparr>status = True, data = Some [sw1_unresolved]\<rparr>)"
    using main.multithread [OF _ address_arguments_wireless_row m
        thread_pool_in_order [of settings_py no_dns _ "[]"]]
    by (simp add: Address_FQDN_init_sw1_unresolved)
  have un: "out = Inr \<lparr>status = True, data = Some [sw1_unresolved]\<rparr>"
    if "main settings_py no_dns [wireless_row] out" for out
    using that
  proof (cases rule: main.cases)
    case (multithread arguments address_objects)
    from multithread(3) have "arguments = ?arguments"
      by (simp add: address_arguments_wireless_row)
    with thread_pool_mset [OF multithread(5)] b
    have "mset address_objects = {#sw1_unresolved#}"
      by simp
    then have "address_objects = [sw1_unresolved]"
      by simp
    with multithread(1) show ?thesis by simp
  qed (simp_all add: address_arguments_wireless_row m)
  have "{out. main settings_py no_dns [wireless_row] out} =
      {Inr \<lparr>status = True, data = Some [sw1_unresolved]\<rparr>}"
    using ex un by blast
  with clean_interface_hostname_Wireless0 show ?thesis
    by (rule conjI)
qed

text \<open>
  Claim C9. On rows that have the columns \<open>ip_address\<close> and \<open>device_hostname\<close>, \<open>main\<close>
  returns, and whatever it returns is a dictionary and not an exception: with status
  \<open>False\<close> and no data exactly when there is no row, and with status \<open>True\<close> and a list of
  records when there is a row, however many of the rows fail.
\<close>

theorem C9_batch_fails_iff_no_rows:
  assumes "list_all mandatory_fields address_table"
  shows "(\<exists>out. main s resolver address_table out) \<and>
         (\<forall>out. main s resolver address_table out \<longrightarrow>
            (\<exists>r. out = Inr r \<and>
               (if address_table = [] then \<not> status r \<and> data r = None
                else status r \<and> data r \<noteq> None)))"
proof (intro conjI allI impI)
  show "\<exists>out. main s resolver address_table out"
    using assms by (rule main_total)
next
  fix out
  assume "main s resolver address_table out"
  then show "\<exists>r. out = Inr r \<and>
               (if address_table = [] then \<not> status r \<and> data r = None
                else status r \<and> data r \<noteq> None)"
  proof (cases rule: main.cases)
    case (raises e)
    with address_arguments_mandatory_fields [OF assms, of s] show ?thesis by auto
  qed auto
qed

theorem C9_batch_fails_iff_no_rows_witness:
  "list_all mandatory_fields [] \<and>
   list_all mandatory_fields [bad_address_row] \<and>
   (\<exists>r. main settings_py no_dns [] (Inr r) \<and> \<not> status r \<and> data r = None) \<and>
   (\<exists>r. main settings_py no_dns [bad_address_row] (Inr r) \<and> status r \<and> data r \<noteq> None) \<and>
   main settings_py no_dns [bad_address_row] (Inr \<lparr>status = True, data = Some []\<rparr>)"
proof -
  have a: "list_all mandatory_fields []"
    by simp
  have b: "list_all mandatory_fields [bad_address_row]"
    by (simp add: mandatory_fields_def bad_address_row_def)
  have "\<exists>r. main settings_py no_dns [] (Inr r) \<and> \<not> status r \<and> data r = None"
  proof -
    from C9_batch_fails_iff_no_rows [OF a, of settings_py no_dns]
    obtain out where o: "main settings_py no_dns [] out"
      and "\<exists>r. out = Inr r \<and> \<not> status r \<and> data r = None"
      by auto
    then show ?thesis by blast
  qed
  moreover
  have "\<exists>r. main settings_py no_dns [bad_address_row] (Inr r) \<and> status r \<and> data r \<noteq> None"
  proof -
    from C9_batch_fails_iff_no_rows [OF b, of settings_py no_dns]
    obtain out where o: "main settings_py no_dns [bad_address_row] out"
      and "\<exists>r. out = Inr r \<and> status r \<and> data r \<noteq> None"
      by auto
    then show ?thesis by blast
  qed
  moreover
  have "main settings_py no_dns [bad_address_row] (Inr \<lparr>status = True, data = Some []\<rparr>)"
    using main.multithread [OF _ address_arguments_bad_address_row _
        thread_pool_in_order [of settings_py no_dns _ "[]"]]
    by (simp add: Address_FQDN_init_bad_address settings_py_def)
  ultimately show ?thesis
    using a b by simp
qed

text \<open>
  Claim C9 as it is worded, for every batch and not only for rows with both columns,
  does not hold. The columns \<open>ip_address\<close> and \<open>device_hostname\<close> are mandatory, as the
  docstring of the module says, and nothing checks for them: line 240 reads
  \<open>address['device_hostname']\<close> outside every \<open>try\<close>. For a batch of a good row and a
  blank line, all \<open>main\<close> can do is end with \<open>KeyError\<close>; no dictionary is returned, and
  the good row is lost with the blank one.
\<close>

theorem C9_blank_row_aborts_the_batch:
  "{out. main settings_py no_dns [sw1_row, blank_row] out} =
   {Inl (KeyError ''device_hostname'')}"
proof -
  have a: "address_arguments settings_py [sw1_row, blank_row] =
           Inl (KeyError ''device_hostname'')"
    by (simp add: address_arguments_def clean_address_def getitem_def sw1_row_def
        blank_row_def clean_device_hostname_sw1)
  have ex: "main settings_py no_dns [sw1_row, blank_row] (Inl (KeyError ''device_hostname''))"
    by (rule main.raises) (simp_all add: a)
  have un: "out = Inl (KeyError ''device_hostname'')"
    if "main settings_py no_dns [sw1_row, blank_row] out" for out
    using that by (cases rule: main.cases) (simp_all add: a)
  show ?thesis
    using ex un by blast
qed

end
